theory Spec2Isabelle
  imports Main
begin

section \<open>Data model\<close>

text \<open>
  The TypeScript interface \<^verbatim>\<open>TreeNodeData { key: number; name: string; parent?: number }\<close>.
  The optional field is an \<open>option\<close>: \<open>None\<close> is a node written without \<^verbatim>\<open>parent\<close>.
  Keys are JavaScript numbers that only ever hold small integers here, so they are \<open>int\<close>.

  Strings are \<open>char list\<close>; a character is read as the code point of the same number
  (U+0000 to U+00FF). Code points above U+00FF are outside this model.
\<close>

record TreeNodeData =
  key :: int
  name :: string
  parent :: "int option"

section \<open>JavaScript built-ins used by the component\<close>

subsection \<open>Number to string, as a template literal prints an integer\<close>

text \<open>
  \<^verbatim>\<open>`${n}`\<close> for an integer-valued number \<open>n\<close>: the decimal digits, with a leading
  minus sign when negative. (JavaScript switches to exponent notation from \<open>10^21\<close> on; the
  decimal rendering below is the one it prints for every integer of smaller magnitude.)
\<close>

definition digit_char :: "nat \<Rightarrow> char" where
  "digit_char d = ''0123456789'' ! d"

fun string_of_nat :: "nat \<Rightarrow> string" where
  "string_of_nat n =
     (if n < 10 then [digit_char n]
      else string_of_nat (n div 10) @ [digit_char (n mod 10)])"

declare string_of_nat.simps [simp del]

definition number_to_string :: "int \<Rightarrow> string" where
  "number_to_string n =
     (if n < 0 then ''-'' @ string_of_nat (nat (- n)) else string_of_nat (nat n))"

subsection \<open>\<^verbatim>\<open>String.prototype.toLowerCase\<close>\<close>

text \<open>
  On U+0000 to U+00FF the upper-case letters are A to Z and U+00C0 to U+00DE without the
  multiplication sign U+00D7; each maps to the code point 32 above it.
\<close>

definition toLowerCase_char :: "char \<Rightarrow> char" where
  "toLowerCase_char c =
     (let n = (of_char c :: nat) in
      if (65 \<le> n \<and> n \<le> 90) \<or> (192 \<le> n \<and> n \<le> 222 \<and> n \<noteq> 215)
      then char_of (n + 32) else c)"

definition toLowerCase :: "string \<Rightarrow> string" where
  "toLowerCase s = map toLowerCase_char s"

subsection \<open>\<^verbatim>\<open>String.prototype.includes\<close>\<close>

text \<open>
  \<^verbatim>\<open>s.includes(t)\<close> searches \<open>s\<close> from position 0 for a position at which \<open>t\<close>
  starts.
\<close>

fun starts_with :: "string \<Rightarrow> string \<Rightarrow> bool" where
  "starts_with s [] = True"
| "starts_with [] (c # t) = False"
| "starts_with (d # s) (c # t) = (d = c \<and> starts_with s t)"

fun includes_str :: "string \<Rightarrow> string \<Rightarrow> bool" where
  "includes_str [] t = starts_with [] t"
| "includes_str (d # s) t = (starts_with (d # s) t \<or> includes_str s t)"

text \<open>The reading of "contains as a substring" that \<open>includes_str\<close> is compared with.\<close>

definition contains_substring :: "string \<Rightarrow> string \<Rightarrow> bool" where
  "contains_substring s t = (\<exists>pre post. s = pre @ t @ post)"

subsection \<open>Array read\<close>

text \<open>An index outside the array reads \<^verbatim>\<open>undefined\<close>, which a template literal prints
  as that word.\<close>

definition array_get :: "string list \<Rightarrow> int \<Rightarrow> string" where
  "array_get xs i = (if 0 \<le> i \<and> i < int (length xs) then xs ! nat i else ''undefined'')"

section \<open>Mock Data Provider\<close>

subsection \<open>The fixtures of \<^verbatim>\<open>mockDataMap\<close>\<close>

definition fire_1 :: "TreeNodeData list" where
  "fire_1 =
    [\<lparr>key = 1, name = ''Fire Incident'', parent = None\<rparr>,
     \<lparr>key = 2, name = ''Cause: Electrical Short'', parent = Some 1\<rparr>,
     \<lparr>key = 3, name = ''Effect: Property Damage'', parent = Some 1\<rparr>]"

definition fire_2 :: "TreeNodeData list" where
  "fire_2 =
    [\<lparr>key = 1, name = ''Fire Incident'', parent = None\<rparr>,
     \<lparr>key = 2, name = ''Cause: Electrical Short'', parent = Some 1\<rparr>,
     \<lparr>key = 3, name = ''Cause: Human Error'', parent = Some 1\<rparr>,
     \<lparr>key = 4, name = ''Old Wiring System'', parent = Some 2\<rparr>,
     \<lparr>key = 5, name = ''Lack of Training'', parent = Some 3\<rparr>,
     \<lparr>key = 6, name = ''Effect: Property Damage'', parent = Some 1\<rparr>,
     \<lparr>key = 7, name = ''Effect: Business Interruption'', parent = Some 1\<rparr>]"

definition fire_3 :: "TreeNodeData list" where
  "fire_3 =
    [\<lparr>key = 1, name = ''Fire Incident'', parent = None\<rparr>,
     \<lparr>key = 2, name = ''Cause: Electrical Short'', parent = Some 1\<rparr>,
     \<lparr>key = 3, name = ''Cause: Human Error'', parent = Some 1\<rparr>,
     \<lparr>key = 4, name = ''Cause: Poor Maintenance'', parent = Some 1\<rparr>,
     \<lparr>key = 5, name = ''Overloaded Circuit'', parent = Some 2\<rparr>,
     \<lparr>key = 6, name = ''Faulty Equipment'', parent = Some 2\<rparr>,
     \<lparr>key = 7, name = ''Inadequate Training'', parent = Some 3\<rparr>,
     \<lparr>key = 8, name = ''Safety Protocol Violation'', parent = Some 3\<rparr>,
     \<lparr>key = 9, name = ''Effect: Property Damage'', parent = Some 1\<rparr>,
     \<lparr>key = 10, name = ''Effect: Employee Injuries'', parent = Some 1\<rparr>,
     \<lparr>key = 11, name = ''Effect: Business Disruption'', parent = Some 1\<rparr>]"

definition slip_1 :: "TreeNodeData list" where
  "slip_1 =
    [\<lparr>key = 1, name = ''Slip Incident'', parent = None\<rparr>,
     \<lparr>key = 2, name = ''Cause: Wet Floor'', parent = Some 1\<rparr>,
     \<lparr>key = 3, name = ''Effect: Minor Injury'', parent = Some 1\<rparr>]"

definition slip_2 :: "TreeNodeData list" where
  "slip_2 =
    [\<lparr>key = 1, name = ''Slip Incident'', parent = None\<rparr>,
     \<lparr>key = 2, name = ''Cause: Wet Floor'', parent = Some 1\<rparr>,
     \<lparr>key = 3, name = ''Cause: Poor Lighting'', parent = Some 1\<rparr>,
     \<lparr>key = 4, name = ''No Warning Signs'', parent = Some 2\<rparr>,
     \<lparr>key = 5, name = ''Maintenance Issue'', parent = Some 3\<rparr>,
     \<lparr>key = 6, name = ''Effect: Employee Injury'', parent = Some 1\<rparr>,
     \<lparr>key = 7, name = ''Effect: Work Disruption'', parent = Some 1\<rparr>]"

definition slip_3 :: "TreeNodeData list" where
  "slip_3 =
    [\<lparr>key = 1, name = ''Slip Incident'', parent = None\<rparr>,
     \<lparr>key = 2, name = ''Cause: Wet Floor'', parent = Some 1\<rparr>,
     \<lparr>key = 3, name = ''Cause: Poor Lighting'', parent = Some 1\<rparr>,
     \<lparr>key = 4, name = ''Cause: Inadequate Footwear'', parent = Some 1\<rparr>,
     \<lparr>key = 5, name = ''No Warning Signs'', parent = Some 2\<rparr>,
     \<lparr>key = 6, name = ''Delayed Cleanup'', parent = Some 2\<rparr>,
     \<lparr>key = 7, name = ''Burnt-out Bulbs'', parent = Some 3\<rparr>,
     \<lparr>key = 8, name = ''Non-slip Soles Worn'', parent = Some 4\<rparr>,
     \<lparr>key = 9, name = ''Effect: Employee Injury'', parent = Some 1\<rparr>,
     \<lparr>key = 10, name = ''Effect: Lost Time Incident'', parent = Some 1\<rparr>,
     \<lparr>key = 11, name = ''Effect: Compensation Claim'', parent = Some 1\<rparr>]"

text \<open>
  The object literal \<^verbatim>\<open>mockDataMap\<close>, read by a string key. A key the literal does not
  have reads \<^verbatim>\<open>undefined\<close>, here \<open>None\<close>. (The properties an object literal inherits
  have names without a hyphen; every key the provider builds has one.)
\<close>

definition mockDataMap :: "string \<Rightarrow> TreeNodeData list option" where
  "mockDataMap =
     map_of [(''fire-1'', fire_1), (''fire-2'', fire_2), (''fire-3'', fire_3),
             (''slip-1'', slip_1), (''slip-2'', slip_2), (''slip-3'', slip_3)]"

subsection \<open>\<^verbatim>\<open>generateGenericData\<close>\<close>

definition causes :: "string list" where
  "causes = [''Human Factor'', ''Equipment Issue'', ''Environmental Factor'', ''Process Failure'']"

definition effects :: "string list" where
  "effects = [''Injury'', ''Property Damage'', ''Work Disruption'', ''Regulatory Issue'']"

definition numCauses :: int where
  "numCauses = 2"

definition numEffects :: int where
  "numEffects = 2"

text \<open>
  The two \<^verbatim>\<open>for\<close> loops. Each carries the loop counter \<open>i\<close> and the two variables the
  body mutates: the array \<open>data\<close> (a \<^verbatim>\<open>push\<close> appends) and the counter \<open>nodeId\<close>.
\<close>

function cause_loop :: "int \<Rightarrow> int \<Rightarrow> TreeNodeData list \<times> int \<Rightarrow> TreeNodeData list \<times> int" where
  "cause_loop level i (data, nodeId) =
     (if i < numCauses then
        let data1 = data @ [\<lparr>key = nodeId, name = ''Cause: '' @ array_get causes i, parent = Some 1\<rparr>];
            data2 =
              (if level \<ge> 2 \<and> i < 2 then
                 let data3 = data1 @ [\<lparr>key = nodeId + 100,
                                       name = ''Sub-cause '' @ number_to_string (i + 1) @ ''.1'',
                                       parent = Some nodeId\<rparr>]
                 in (if level \<ge> 3 then
                       data3 @ [\<lparr>key = nodeId + 200,
                                 name = ''Sub-cause '' @ number_to_string (i + 1) @ ''.2'',
                                 parent = Some nodeId\<rparr>]
                     else data3)
               else data1)
        in cause_loop level (i + 1) (data2, nodeId + 1)
      else (data, nodeId))"
  by pat_completeness auto
termination
  by (relation "measure (\<lambda>(level, i, st). nat (numCauses - i))") auto

declare cause_loop.simps [simp del]

function effect_loop :: "int \<Rightarrow> int \<Rightarrow> TreeNodeData list \<times> int \<Rightarrow> TreeNodeData list \<times> int" where
  "effect_loop level i (data, nodeId) =
     (if i < numEffects then
        let data1 = data @ [\<lparr>key = nodeId, name = ''Effect: '' @ array_get effects i, parent = Some 1\<rparr>];
            data2 =
              (if level \<ge> 2 \<and> i < 2 then
                 let data3 = data1 @ [\<lparr>key = nodeId + 300,
                                       name = ''Secondary Effect '' @ number_to_string (i + 1) @ ''.1'',
                                       parent = Some nodeId\<rparr>]
                 in (if level \<ge> 3 then
                       data3 @ [\<lparr>key = nodeId + 400,
                                 name = ''Long-term Effect '' @ number_to_string (i + 1) @ ''.1'',
                                 parent = Some nodeId\<rparr>]
                     else data3)
               else data1)
        in effect_loop level (i + 1) (data2, nodeId + 1)
      else (data, nodeId))"
  by pat_completeness auto
termination
  by (relation "measure (\<lambda>(level, i, st). nat (numEffects - i))") auto

declare effect_loop.simps [simp del]

definition generateGenericData :: "string \<Rightarrow> int \<Rightarrow> TreeNodeData list" where
  "generateGenericData incident level =
     (let data = [\<lparr>key = 1, name = incident, parent = None\<rparr>];
          nodeId = 2;
          st = cause_loop level 0 (data, nodeId);
          st = effect_loop level 0 st
      in fst st)"

subsection \<open>\<^verbatim>\<open>fakeApiCall\<close>\<close>

definition incidentType :: "string \<Rightarrow> string" where
  "incidentType incident =
     (if includes_str (toLowerCase incident) ''fire'' then ''fire''
      else if includes_str (toLowerCase incident) ''slip'' then ''slip''
      else ''generic'')"

definition lookup_key :: "string \<Rightarrow> int \<Rightarrow> string" where
  "lookup_key incident level = incidentType incident @ ''-'' @ number_to_string level"

text \<open>
  The value the returned Observable emits. The one-second delay is not part of the value
  and is not modelled. An array is truthy, so \<^verbatim>\<open>!mockData\<close> holds exactly when the
  lookup found nothing.
\<close>

definition fakeApiCall :: "string \<Rightarrow> int \<Rightarrow> TreeNodeData list" where
  "fakeApiCall incident level =
     (case mockDataMap (lookup_key incident level) of
        Some mockData \<Rightarrow> mockData
      | None \<Rightarrow> generateGenericData incident level)"

subsection \<open>Shape of a node list\<close>

definition roots :: "TreeNodeData list \<Rightarrow> TreeNodeData list" where
  "roots ns = filter (\<lambda>n. parent n = None) ns"

definition children_of :: "int \<Rightarrow> TreeNodeData list \<Rightarrow> TreeNodeData list" where
  "children_of k ns = filter (\<lambda>n. parent n = Some k) ns"

definition nodes_named :: "string \<Rightarrow> TreeNodeData list \<Rightarrow> TreeNodeData list" where
  "nodes_named nm ns = filter (\<lambda>n. name n = nm) ns"

definition unique_keys :: "TreeNodeData list \<Rightarrow> bool" where
  "unique_keys ns = distinct (map key ns)"

text \<open>Every \<^verbatim>\<open>parent\<close> value is the key of some node of the list.\<close>

definition parents_resolve :: "TreeNodeData list \<Rightarrow> bool" where
  "parents_resolve ns =
     list_all (\<lambda>n. case parent n of None \<Rightarrow> True
                                  | Some p \<Rightarrow> list_ex (\<lambda>m. key m = p) ns) ns"

text \<open>Every \<^verbatim>\<open>parent\<close> value is the key of a node of the list other than the node itself.\<close>

definition parents_resolve_to_other :: "TreeNodeData list \<Rightarrow> bool" where
  "parents_resolve_to_other ns =
     list_all (\<lambda>n. case parent n of None \<Rightarrow> True
                                  | Some p \<Rightarrow> list_ex (\<lambda>m. key m = p \<and> m \<noteq> n) ns) ns"

section \<open>Form Controller and Export\<close>

subsection \<open>\<^verbatim>\<open>String.prototype.trim\<close> and \<^verbatim>\<open>parseInt\<close>\<close>

text \<open>
  The white space and line terminators of ECMAScript within U+0000 to U+00FF: tab, line
  feed, vertical tab, form feed, carriage return, space and no-break space.
\<close>

definition isWhiteSpace :: "char \<Rightarrow> bool" where
  "isWhiteSpace c = ((of_char c :: nat) \<in> {9, 10, 11, 12, 13, 32, 160})"

definition trim :: "string \<Rightarrow> string" where
  "trim s = rev (dropWhile isWhiteSpace (rev (dropWhile isWhiteSpace s)))"

text \<open>
  A \<^verbatim>\<open>number\<close> as \<^verbatim>\<open>parseInt\<close> returns it: \<open>NaN\<close> or an integer. The model keeps
  the integer exact; JavaScript rounds it to a double beyond \<open>2^53\<close> and reads \<open>-0\<close> for
  a negated zero. Neither changes a comparison with 2 or 3 or whether the number prints as
  1, 2 or 3, which is all the component does with it.
\<close>

datatype jsnum = NaN | Num int

definition digit_value :: "char \<Rightarrow> nat option" where
  "digit_value c =
     (let n = (of_char c :: nat) in
      if 48 \<le> n \<and> n \<le> 57 then Some (n - 48)
      else if 97 \<le> n \<and> n \<le> 122 then Some (n - 87)
      else if 65 \<le> n \<and> n \<le> 90 then Some (n - 55)
      else None)"

definition is_radix_digit :: "nat \<Rightarrow> char \<Rightarrow> bool" where
  "is_radix_digit R c = (case digit_value c of Some v \<Rightarrow> v < R | None \<Rightarrow> False)"

definition digits_value :: "nat \<Rightarrow> string \<Rightarrow> nat" where
  "digits_value R Z =
     foldl (\<lambda>acc c. acc * R + (case digit_value c of Some v \<Rightarrow> v | None \<Rightarrow> 0)) 0 Z"

text \<open>
  \<^verbatim>\<open>parseInt(input)\<close> with no radix: skip leading white space, take a sign, take a
  \<^verbatim>\<open>0x\<close> or \<^verbatim>\<open>0X\<close> prefix as radix 16 (radix 10 otherwise), read digits up to the
  first character that is not one; no digit at all is \<open>NaN\<close>.
\<close>

definition parseInt :: "string \<Rightarrow> jsnum" where
  "parseInt input =
     (let S1 = dropWhile isWhiteSpace input;
          sign = (if S1 \<noteq> [] \<and> hd S1 = CHR ''-'' then - 1 else (1::int));
          S2 = (if S1 \<noteq> [] \<and> (hd S1 = CHR ''+'' \<or> hd S1 = CHR ''-'') then tl S1 else S1);
          hex = (starts_with S2 ''0x'' \<or> starts_with S2 ''0X'');
          R = (if hex then 16 else 10);
          S3 = (if hex then drop 2 S2 else S2);
          Z = takeWhile (is_radix_digit R) S3
      in if Z = [] then NaN else Num (sign * int (digits_value R Z)))"

subsection \<open>State of the component and of the page\<close>

text \<open>
  What the code does to the outside is recorded in \<open>trace\<close>, in order: an alert, a
  \<^verbatim>\<open>console.error\<close>, a call of the provider, \<^verbatim>\<open>makeSvg\<close>,
  \<^verbatim>\<open>URL.createObjectURL\<close>, \<^verbatim>\<open>window.open\<close>, the report written into the print
  window, a timer set.
\<close>

datatype effect =
    Alert string
  | ConsoleError
  | ProviderCall string int
  | MakeSvg
  | CreateObjectURL
  | WindowOpen
  | DocumentWrite string "jsnum option"
  | SetTimeout nat

text \<open>
  The fields of the class (\<open>level = None\<close> is \<^verbatim>\<open>null\<close>), the node array handed to the
  diagram as its model, the three page elements the code writes (\<^verbatim>\<open>style.display\<close> of
  the spinner and of the chart section, \<^verbatim>\<open>disabled\<close> of the export button), and the
  provider calls that have been started and not yet awaited to their end, oldest first, each
  with the array its Observable will emit.
\<close>

record app =
  incident :: string
  level :: "jsnum option"
  diagramInitialized :: bool
  isLoading :: bool
  diagramModel :: "TreeNodeData list"
  spinnerDisplay :: string
  chartDisplay :: string
  exportDisabled :: bool
  pending :: "TreeNodeData list list"
  trace :: "effect list"

subsection \<open>\<^verbatim>\<open>generateDiagram\<close>\<close>

text \<open>
  The function up to its \<^verbatim>\<open>await\<close>. Past the guard \<open>level\<close> is a number, so the
  last case of the \<open>case\<close> is never taken.
\<close>

definition generateDiagram_start :: "app \<Rightarrow> app" where
  "generateDiagram_start s =
     (if incident s = [] \<or> level s = None \<or> level s = Some NaN then
        s\<lparr>trace := trace s @ [Alert ''Please fill in both Incident and Level'']\<rparr>
      else
        (case level s of
           Some (Num l) \<Rightarrow>
             s\<lparr>isLoading := True,
               spinnerDisplay := ''block'',
               chartDisplay := ''none'',
               exportDisabled := True,
               pending := pending s @ [fakeApiCall (incident s) l],
               trace := trace s @ [ProviderCall (incident s) l]\<rparr>
         | _ \<Rightarrow> s))"

text \<open>
  The function from its \<^verbatim>\<open>await\<close> on, for the oldest call in flight. \<open>ok\<close> says that
  the \<^verbatim>\<open>try\<close> block runs to its end; otherwise something in it throws before
  \<^verbatim>\<open>diagramInitialized\<close> is assigned (the awaited promise rejects, or the diagram
  library refuses the model) and the \<^verbatim>\<open>catch\<close> block runs. \<^verbatim>\<open>finally\<close> runs in
  both cases.
\<close>

definition generateDiagram_resume :: "bool \<Rightarrow> app \<Rightarrow> app" where
  "generateDiagram_resume ok s =
     (case pending s of
        [] \<Rightarrow> s
      | data # rest \<Rightarrow>
          let s1 = s\<lparr>pending := rest\<rparr>;
              s2 = (if ok then
                      s1\<lparr>diagramModel := data,
                         diagramInitialized := True,
                         chartDisplay := ''block'',
                         exportDisabled := False\<rparr>
                    else
                      s1\<lparr>trace := trace s1 @ [Alert ''Failed to load diagram data'', ConsoleError]\<rparr>)
          in s2\<lparr>isLoading := False, spinnerDisplay := ''none''\<rparr>)"

text \<open>The \<^verbatim>\<open>submit\<close> listener, with the values of the two inputs.\<close>

definition onSubmit :: "string \<Rightarrow> string \<Rightarrow> app \<Rightarrow> app" where
  "onSubmit incidentInput levelInput s =
     generateDiagram_start (s\<lparr>incident := trim incidentInput, level := Some (parseInt levelInput)\<rparr>)"

subsection \<open>\<^verbatim>\<open>printDiagram\<close>\<close>

text \<open>
  \<open>svgOk\<close>: \<^verbatim>\<open>makeSvg\<close> returns an element; \<open>windowOk\<close>: \<^verbatim>\<open>window.open\<close> returns a
  window. The callbacks of the two timers are not run here.
\<close>

definition printDiagram :: "bool \<Rightarrow> bool \<Rightarrow> app \<Rightarrow> app" where
  "printDiagram svgOk windowOk s =
     (if \<not> diagramInitialized s then
        s\<lparr>trace := trace s @ [Alert ''Please generate a diagram first'']\<rparr>
      else
        let s1 = s\<lparr>trace := trace s @ [MakeSvg]\<rparr> in
        if \<not> svgOk then
          s1\<lparr>trace := trace s1 @ [Alert ''Failed to generate diagram SVG.'']\<rparr>
        else
          let s2 = s1\<lparr>trace := trace s1 @ [CreateObjectURL, WindowOpen]\<rparr> in
          if windowOk then
            s2\<lparr>trace := trace s2 @ [DocumentWrite (incident s) (level s),
                                     SetTimeout 500, SetTimeout 30000]\<rparr>
          else s2)"

subsection \<open>Runs of the page\<close>

text \<open>
  What can happen after the view is set up: the form is submitted, the oldest provider call
  in flight comes back (and the rest of \<^verbatim>\<open>generateDiagram\<close> runs, to its end or into
  \<^verbatim>\<open>catch\<close>), or \<^verbatim>\<open>printDiagram\<close> is called.
\<close>

datatype event =
    Submit string string
  | Settle bool
  | Print bool bool

fun step :: "app \<Rightarrow> event \<Rightarrow> app" where
  "step s (Submit incidentInput levelInput) = onSubmit incidentInput levelInput s"
| "step s (Settle ok) = generateDiagram_resume ok s"
| "step s (Print svgOk windowOk) = printDiagram svgOk windowOk s"

definition run :: "event list \<Rightarrow> app \<Rightarrow> app" where
  "run evs s = foldl step s evs"

text \<open>
  The state once \<^verbatim>\<open>ngAfterViewInit\<close> has run: the fields at their initialisers, an empty
  model, the spinner hidden. What the page's markup gives the chart section and the export
  button is not in the class, so both are parameters.
\<close>

definition afterViewInit :: "string \<Rightarrow> bool \<Rightarrow> app" where
  "afterViewInit chart0 disabled0 =
     \<lparr>incident = [], level = None, diagramInitialized = False, isLoading = False,
      diagramModel = [], spinnerDisplay = ''none'', chartDisplay = chart0,
      exportDisabled = disabled0, pending = [], trace = []\<rparr>"

section \<open>Facts about the built-ins\<close>

lemma number_to_string_small:
  "number_to_string 1 = ''1''" "number_to_string 2 = ''2''" "number_to_string 3 = ''3''"
  by (simp_all add: number_to_string_def string_of_nat.simps digit_char_def)

lemma string_of_nat_not_empty: "string_of_nat n \<noteq> []"
  by (subst string_of_nat.simps) simp

lemma string_of_nat_two_digits: "10 \<le> n \<Longrightarrow> 2 \<le> length (string_of_nat n)"
  using string_of_nat_not_empty [of "n div 10"]
  by (subst string_of_nat.simps) (cases "string_of_nat (n div 10)", auto)

lemma digit_char_cases:
  assumes "n < 10"
  shows "n \<in> {9, 8, 7, 6, 5, 4, 3, 2, 1, 0::nat}"
  using assms by auto

lemma string_of_nat_one_digit:
  assumes "string_of_nat n = [c]" and "c = CHR ''1'' \<or> c = CHR ''2'' \<or> c = CHR ''3''"
  shows "(c = CHR ''1'' \<and> n = 1) \<or> (c = CHR ''2'' \<and> n = 2) \<or> (c = CHR ''3'' \<and> n = 3)"
proof -
  have small: "n < 10"
  proof (rule ccontr)
    assume "\<not> n < 10"
    then have "2 \<le> length (string_of_nat n)" by (simp add: string_of_nat_two_digits)
    with assms(1) show False by simp
  qed
  then have "c = digit_char n"
    using assms(1) by (subst (asm) string_of_nat.simps) simp
  with digit_char_cases [OF small] assms(2) show ?thesis
    by (auto simp: digit_char_def)
qed

lemma number_to_string_digit:
  assumes "number_to_string l = [c]" and "c = CHR ''1'' \<or> c = CHR ''2'' \<or> c = CHR ''3''"
  shows "(c = CHR ''1'' \<and> l = 1) \<or> (c = CHR ''2'' \<and> l = 2) \<or> (c = CHR ''3'' \<and> l = 3)"
proof (cases "l < 0")
  case True
  with assms(1) show ?thesis
    using string_of_nat_not_empty [of "nat (- l)"] by (simp add: number_to_string_def)
next
  case False
  with assms(1) have "string_of_nat (nat l) = [c]" by (simp add: number_to_string_def)
  from string_of_nat_one_digit [OF this assms(2)] False show ?thesis by auto
qed

lemma number_to_string_1 [simp]: "number_to_string l = ''1'' \<longleftrightarrow> l = 1"
  using number_to_string_digit [of l "CHR ''1''"] by (auto simp: number_to_string_small)

lemma number_to_string_2 [simp]: "number_to_string l = ''2'' \<longleftrightarrow> l = 2"
  using number_to_string_digit [of l "CHR ''2''"] by (auto simp: number_to_string_small)

lemma number_to_string_3 [simp]: "number_to_string l = ''3'' \<longleftrightarrow> l = 3"
  using number_to_string_digit [of l "CHR ''3''"] by (auto simp: number_to_string_small)

lemma starts_with_iff: "starts_with s t \<longleftrightarrow> (\<exists>post. s = t @ post)"
  by (induction s t rule: starts_with.induct) auto

lemma includes_str_iff: "includes_str s t \<longleftrightarrow> contains_substring s t"
proof (induction s)
  case Nil
  show ?case by (cases t) (simp_all add: contains_substring_def)
next
  case (Cons d s)
  have "contains_substring (d # s) t \<longleftrightarrow> (\<exists>post. d # s = t @ post) \<or> contains_substring s t"
    unfolding contains_substring_def
  proof
    assume "\<exists>pre post. d # s = pre @ t @ post"
    then obtain pre post where eq: "d # s = pre @ t @ post" by blast
    show "(\<exists>post. d # s = t @ post) \<or> (\<exists>pre post. s = pre @ t @ post)"
    proof (cases pre)
      case Nil
      with eq show ?thesis by auto
    next
      case (Cons p pre')
      with eq have "s = pre' @ t @ post" by simp
      then show ?thesis by blast
    qed
  next
    assume "(\<exists>post. d # s = t @ post) \<or> (\<exists>pre post. s = pre @ t @ post)"
    then show "\<exists>pre post. d # s = pre @ t @ post"
    proof
      assume "\<exists>post. d # s = t @ post"
      then obtain post where "d # s = [] @ t @ post" by auto
      then show ?thesis by blast
    next
      assume "\<exists>pre post. s = pre @ t @ post"
      then obtain pre post where "d # s = (d # pre) @ t @ post" by auto
      then show ?thesis by blast
    qed
  qed
  with Cons.IH show ?case by (simp add: starts_with_iff)
qed

section \<open>The synthesizer's output, level by level\<close>

lemmas loop_unfold = cause_loop.simps effect_loop.simps numCauses_def numEffects_def
  array_get_def causes_def effects_def Let_def

lemma generic_low: "lvl < 2 \<Longrightarrow> generateGenericData inc lvl =
  [\<lparr>key = 1, name = inc, parent = None\<rparr>,
   \<lparr>key = 2, name = ''Cause: Human Factor'', parent = Some 1\<rparr>,
   \<lparr>key = 3, name = ''Cause: Equipment Issue'', parent = Some 1\<rparr>,
   \<lparr>key = 4, name = ''Effect: Injury'', parent = Some 1\<rparr>,
   \<lparr>key = 5, name = ''Effect: Property Damage'', parent = Some 1\<rparr>]"
  by (simp add: generateGenericData_def loop_unfold)

lemma generic_two: "generateGenericData inc 2 =
  [\<lparr>key = 1, name = inc, parent = None\<rparr>,
   \<lparr>key = 2, name = ''Cause: Human Factor'', parent = Some 1\<rparr>,
   \<lparr>key = 102, name = ''Sub-cause 1.1'', parent = Some 2\<rparr>,
   \<lparr>key = 3, name = ''Cause: Equipment Issue'', parent = Some 1\<rparr>,
   \<lparr>key = 103, name = ''Sub-cause 2.1'', parent = Some 3\<rparr>,
   \<lparr>key = 4, name = ''Effect: Injury'', parent = Some 1\<rparr>,
   \<lparr>key = 304, name = ''Secondary Effect 1.1'', parent = Some 4\<rparr>,
   \<lparr>key = 5, name = ''Effect: Property Damage'', parent = Some 1\<rparr>,
   \<lparr>key = 305, name = ''Secondary Effect 2.1'', parent = Some 5\<rparr>]"
  by (simp add: generateGenericData_def loop_unfold number_to_string_small)

lemma generic_high: "3 \<le> lvl \<Longrightarrow> generateGenericData inc lvl =
  [\<lparr>key = 1, name = inc, parent = None\<rparr>,
   \<lparr>key = 2, name = ''Cause: Human Factor'', parent = Some 1\<rparr>,
   \<lparr>key = 102, name = ''Sub-cause 1.1'', parent = Some 2\<rparr>,
   \<lparr>key = 202, name = ''Sub-cause 1.2'', parent = Some 2\<rparr>,
   \<lparr>key = 3, name = ''Cause: Equipment Issue'', parent = Some 1\<rparr>,
   \<lparr>key = 103, name = ''Sub-cause 2.1'', parent = Some 3\<rparr>,
   \<lparr>key = 203, name = ''Sub-cause 2.2'', parent = Some 3\<rparr>,
   \<lparr>key = 4, name = ''Effect: Injury'', parent = Some 1\<rparr>,
   \<lparr>key = 304, name = ''Secondary Effect 1.1'', parent = Some 4\<rparr>,
   \<lparr>key = 404, name = ''Long-term Effect 1.1'', parent = Some 4\<rparr>,
   \<lparr>key = 5, name = ''Effect: Property Damage'', parent = Some 1\<rparr>,
   \<lparr>key = 305, name = ''Secondary Effect 2.1'', parent = Some 5\<rparr>,
   \<lparr>key = 405, name = ''Long-term Effect 2.1'', parent = Some 5\<rparr>]"
  by (simp add: generateGenericData_def loop_unfold number_to_string_small)

lemma level_cases:
  obtains (low) "lvl < 2" | (two) "lvl = 2" | (high) "3 \<le> (lvl::int)"
  by arith

lemmas shape_defs = roots_def children_of_def nodes_named_def unique_keys_def
  parents_resolve_def parents_resolve_to_other_def

lemmas fixture_defs = fire_1_def fire_2_def fire_3_def slip_1_def slip_2_def slip_3_def

lemma generic_shape:
  "unique_keys (generateGenericData inc lvl)"
  "length (roots (generateGenericData inc lvl)) = 1"
  "parents_resolve (generateGenericData inc lvl)"
  by (cases lvl rule: level_cases; simp add: generic_low generic_two generic_high shape_defs)+

lemma fixture_shape:
  assumes "d \<in> {fire_1, fire_2, fire_3, slip_1, slip_2, slip_3}"
  shows "unique_keys d" "length (roots d) = 1" "parents_resolve d" "parents_resolve_to_other d"
  using assms by (auto simp: fixture_defs shape_defs)

lemma incidentType_cases:
  "incidentType inc = ''fire'' \<or> incidentType inc = ''slip'' \<or> incidentType inc = ''generic''"
  by (simp add: incidentType_def)

lemma mockDataMap_fire:
  "mockDataMap (''fire-'' @ number_to_string lvl) =
     (if lvl = 1 then Some fire_1 else if lvl = 2 then Some fire_2
      else if lvl = 3 then Some fire_3 else None)"
  by (simp add: mockDataMap_def)

lemma mockDataMap_slip:
  "mockDataMap (''slip-'' @ number_to_string lvl) =
     (if lvl = 1 then Some slip_1 else if lvl = 2 then Some slip_2
      else if lvl = 3 then Some slip_3 else None)"
  by (simp add: mockDataMap_def)

lemma mockDataMap_generic:
  "mockDataMap (''generic-'' @ number_to_string lvl) = None"
  by (simp add: mockDataMap_def)

lemma fakeApiCall_fire:
  "incidentType inc = ''fire'' \<Longrightarrow> fakeApiCall inc lvl =
     (if lvl = 1 then fire_1 else if lvl = 2 then fire_2
      else if lvl = 3 then fire_3 else generateGenericData inc lvl)"
  using mockDataMap_fire [of lvl] by (simp add: fakeApiCall_def lookup_key_def)

lemma fakeApiCall_slip:
  "incidentType inc = ''slip'' \<Longrightarrow> fakeApiCall inc lvl =
     (if lvl = 1 then slip_1 else if lvl = 2 then slip_2
      else if lvl = 3 then slip_3 else generateGenericData inc lvl)"
  using mockDataMap_slip [of lvl] by (simp add: fakeApiCall_def lookup_key_def)

lemma fakeApiCall_generic:
  "incidentType inc = ''generic'' \<Longrightarrow> fakeApiCall inc lvl = generateGenericData inc lvl"
  using mockDataMap_generic [of lvl] by (simp add: fakeApiCall_def lookup_key_def)

lemma fakeApiCall_cases:
  "fakeApiCall inc lvl \<in> {fire_1, fire_2, fire_3, slip_1, slip_2, slip_3}
   \<or> fakeApiCall inc lvl = generateGenericData inc lvl"
  using incidentType_cases [of inc]
  by (auto simp: fakeApiCall_fire fakeApiCall_slip fakeApiCall_generic)

section \<open>Runs and \<^verbatim>\<open>diagramInitialized\<close>\<close>

lemma step_keeps_uninitialized:
  "\<not> diagramInitialized s \<Longrightarrow> e \<noteq> Settle True \<Longrightarrow> \<not> diagramInitialized (step s e)"
  by (cases e)
    (auto simp: onSubmit_def generateDiagram_start_def generateDiagram_resume_def
      printDiagram_def Let_def split: list.splits option.splits jsnum.splits)

lemma run_keeps_uninitialized:
  "\<not> diagramInitialized s \<Longrightarrow> Settle True \<notin> set evs \<Longrightarrow> \<not> diagramInitialized (run evs s)"
  unfolding run_def
proof (induction evs arbitrary: s)
  case Nil
  then show ?case by simp
next
  case (Cons e evs)
  from Cons.prems have "\<not> diagramInitialized (step s e)"
    using step_keeps_uninitialized [of s e] by auto
  with Cons.IH [of "step s e"] Cons.prems(2) show ?case by simp
qed





section \<open>Claims\<close>

subsection \<open>C1: where the level-3 nodes of the synthesizer hang\<close>

text \<open>
  C1, as stated: at level 3 or more, "Sub-cause i.2" is the one child of "Sub-cause i.1" and
  "Long-term Effect i.1" is the one child of "Secondary Effect i.1". The code gives both
  level-3 nodes \<^verbatim>\<open>parent: nodeId\<close>, the key of the cause or effect itself. At incident
  "Spill" and level 3 the parent of "Sub-cause 1.2" is not the key of "Sub-cause 1.1", which
  has no child at all; the same for the effect side.
\<close>

theorem generic_level3_chain_counterexample:
  "parent (hd (nodes_named ''Sub-cause 1.2'' (generateGenericData ''Spill'' 3)))
     \<noteq> Some (key (hd (nodes_named ''Sub-cause 1.1'' (generateGenericData ''Spill'' 3))))
   \<and> children_of (key (hd (nodes_named ''Sub-cause 1.1'' (generateGenericData ''Spill'' 3))))
        (generateGenericData ''Spill'' 3) = []
   \<and> parent (hd (nodes_named ''Long-term Effect 1.1'' (generateGenericData ''Spill'' 3)))
     \<noteq> Some (key (hd (nodes_named ''Secondary Effect 1.1'' (generateGenericData ''Spill'' 3))))
   \<and> children_of (key (hd (nodes_named ''Secondary Effect 1.1'' (generateGenericData ''Spill'' 3))))
        (generateGenericData ''Spill'' 3) = []"
  by (simp add: generic_high shape_defs)

text \<open>
  C1, amended: at level 3 or more, "Sub-cause i.2" (key 201 + i) is a child of the i-th cause
  node (key 1 + i), next to "Sub-cause i.1" (key 101 + i), and "Long-term Effect i.1"
  (key 403 + i) is a child of the i-th effect node (key 3 + i), next to
  "Secondary Effect i.1" (key 303 + i); the ".1" nodes have no children.
\<close>

theorem generic_level3_siblings:
  assumes "3 \<le> lvl"
  shows "children_of 2 (generateGenericData inc lvl) =
           [\<lparr>key = 102, name = ''Sub-cause 1.1'', parent = Some 2\<rparr>,
            \<lparr>key = 202, name = ''Sub-cause 1.2'', parent = Some 2\<rparr>]
       \<and> children_of 3 (generateGenericData inc lvl) =
           [\<lparr>key = 103, name = ''Sub-cause 2.1'', parent = Some 3\<rparr>,
            \<lparr>key = 203, name = ''Sub-cause 2.2'', parent = Some 3\<rparr>]
       \<and> children_of 4 (generateGenericData inc lvl) =
           [\<lparr>key = 304, name = ''Secondary Effect 1.1'', parent = Some 4\<rparr>,
            \<lparr>key = 404, name = ''Long-term Effect 1.1'', parent = Some 4\<rparr>]
       \<and> children_of 5 (generateGenericData inc lvl) =
           [\<lparr>key = 305, name = ''Secondary Effect 2.1'', parent = Some 5\<rparr>,
            \<lparr>key = 405, name = ''Long-term Effect 2.1'', parent = Some 5\<rparr>]
       \<and> children_of 102 (generateGenericData inc lvl) = []
       \<and> children_of 103 (generateGenericData inc lvl) = []
       \<and> children_of 304 (generateGenericData inc lvl) = []
       \<and> children_of 305 (generateGenericData inc lvl) = []
       \<and> map name (filter (\<lambda>n. key n = 2 \<or> key n = 3 \<or> key n = 4 \<or> key n = 5)
                     (generateGenericData inc lvl)) =
           [''Cause: Human Factor'', ''Cause: Equipment Issue'',
            ''Effect: Injury'', ''Effect: Property Damage'']"
  using assms by (simp add: generic_high shape_defs)

text \<open>C1, amended, at incident "Spill" and level 3.\<close>

theorem generic_level3_siblings_witness:
  "(3::int) \<le> 3
   \<and> children_of 2 (generateGenericData ''Spill'' 3) =
           [\<lparr>key = 102, name = ''Sub-cause 1.1'', parent = Some 2\<rparr>,
            \<lparr>key = 202, name = ''Sub-cause 1.2'', parent = Some 2\<rparr>]
   \<and> children_of 102 (generateGenericData ''Spill'' 3) = []"
  using generic_level3_siblings [of 3 "''Spill''"] by simp

subsection \<open>C2: size and first layer of the synthesizer's output\<close>

text \<open>
  C2: the synthesizer returns 5 nodes at level 1, 9 at level 2 and 13 at level 3; at every
  level the one node without a parent is the root, with key 1 and the incident text as its
  name, and the children of the root are exactly two causes and two effects, labelled with
  the first two entries of each pool.
\<close>

theorem generic_node_counts:
  "length (generateGenericData inc 1) = 5
   \<and> length (generateGenericData inc 2) = 9
   \<and> length (generateGenericData inc 3) = 13
   \<and> roots (generateGenericData inc lvl) = [\<lparr>key = 1, name = inc, parent = None\<rparr>]
   \<and> children_of 1 (generateGenericData inc lvl) =
       [\<lparr>key = 2, name = ''Cause: '' @ causes ! 0, parent = Some 1\<rparr>,
        \<lparr>key = 3, name = ''Cause: '' @ causes ! 1, parent = Some 1\<rparr>,
        \<lparr>key = 4, name = ''Effect: '' @ effects ! 0, parent = Some 1\<rparr>,
        \<lparr>key = 5, name = ''Effect: '' @ effects ! 1, parent = Some 1\<rparr>]"
proof -
  have counts: "length (generateGenericData inc 1) = 5" "length (generateGenericData inc 2) = 9"
    "length (generateGenericData inc 3) = 13"
    by (simp_all add: generic_low generic_two generic_high)
  have shape: "roots (generateGenericData inc lvl) = [\<lparr>key = 1, name = inc, parent = None\<rparr>]"
    "children_of 1 (generateGenericData inc lvl) =
       [\<lparr>key = 2, name = ''Cause: '' @ causes ! 0, parent = Some 1\<rparr>,
        \<lparr>key = 3, name = ''Cause: '' @ causes ! 1, parent = Some 1\<rparr>,
        \<lparr>key = 4, name = ''Effect: '' @ effects ! 0, parent = Some 1\<rparr>,
        \<lparr>key = 5, name = ''Effect: '' @ effects ! 1, parent = Some 1\<rparr>]"
    by (cases lvl rule: level_cases;
        simp add: generic_low generic_two generic_high shape_defs causes_def effects_def)+
  from counts shape show ?thesis by simp
qed

text \<open>C2 at incident "Chemical spill" and level 2.\<close>

theorem generic_node_counts_witness:
  "length (generateGenericData ''Chemical spill'' 2) = 9
   \<and> roots (generateGenericData ''Chemical spill'' 2) =
       [\<lparr>key = 1, name = ''Chemical spill'', parent = None\<rparr>]
   \<and> map name (children_of 1 (generateGenericData ''Chemical spill'' 2)) =
       [''Cause: Human Factor'', ''Cause: Equipment Issue'',
        ''Effect: Injury'', ''Effect: Property Damage'']"
  using generic_node_counts [of "''Chemical spill''" 2] by (simp add: causes_def effects_def)

subsection \<open>C3: the fixtures\<close>

text \<open>
  C3: for an incident classified as fire or slip and a level of 1, 2 or 3, the provider
  returns the entry of \<^verbatim>\<open>mockDataMap\<close> under the key "category-level"; that list has
  3, 7 or 11 nodes by level, one root, and every parent value is the key of another node of
  the list.
\<close>

theorem fixture_returned:
  assumes "incidentType inc = c" and "c = ''fire'' \<or> c = ''slip''"
    and "lvl = 1 \<or> lvl = 2 \<or> lvl = 3"
  shows "lookup_key inc lvl = c @ ''-'' @ number_to_string lvl
       \<and> mockDataMap (c @ ''-'' @ number_to_string lvl) = Some (fakeApiCall inc lvl)
       \<and> length (fakeApiCall inc lvl) = (if lvl = 1 then 3 else if lvl = 2 then 7 else 11)
       \<and> length (roots (fakeApiCall inc lvl)) = 1
       \<and> parents_resolve_to_other (fakeApiCall inc lvl)"
proof -
  have k: "lookup_key inc lvl = c @ ''-'' @ number_to_string lvl"
    using assms(1) by (simp add: lookup_key_def)
  from assms(2) show ?thesis
  proof
    assume c: "c = ''fire''"
    with assms(1) have f: "fakeApiCall inc lvl =
        (if lvl = 1 then fire_1 else if lvl = 2 then fire_2 else fire_3)"
      using assms(3) by (auto simp: fakeApiCall_fire)
    have m: "mockDataMap (c @ ''-'' @ number_to_string lvl) = Some (fakeApiCall inc lvl)"
      using mockDataMap_fire [of lvl] assms(3) c f by auto
    have "fakeApiCall inc lvl \<in> {fire_1, fire_2, fire_3, slip_1, slip_2, slip_3}"
      using f by simp
    from fixture_shape(2,4) [OF this] k m f assms(3) show ?thesis
      by (auto simp: fixture_defs)
  next
    assume c: "c = ''slip''"
    with assms(1) have f: "fakeApiCall inc lvl =
        (if lvl = 1 then slip_1 else if lvl = 2 then slip_2 else slip_3)"
      using assms(3) by (auto simp: fakeApiCall_slip)
    have m: "mockDataMap (c @ ''-'' @ number_to_string lvl) = Some (fakeApiCall inc lvl)"
      using mockDataMap_slip [of lvl] assms(3) c f by auto
    have "fakeApiCall inc lvl \<in> {fire_1, fire_2, fire_3, slip_1, slip_2, slip_3}"
      using f by simp
    from fixture_shape(2,4) [OF this] k m f assms(3) show ?thesis
      by (auto simp: fixture_defs)
  qed
qed

text \<open>C3 at the specification's end-to-end example, "Fire in warehouse" at level 2.\<close>

theorem fixture_returned_witness:
  "incidentType ''Fire in warehouse'' = ''fire''
   \<and> mockDataMap ''fire-2'' = Some (fakeApiCall ''Fire in warehouse'' 2)
   \<and> fakeApiCall ''Fire in warehouse'' 2 = fire_2
   \<and> length (fakeApiCall ''Fire in warehouse'' 2) = 7
   \<and> length (roots (fakeApiCall ''Fire in warehouse'' 2)) = 1
   \<and> parents_resolve_to_other (fakeApiCall ''Fire in warehouse'' 2)"
proof -
  have t: "incidentType ''Fire in warehouse'' = ''fire''" by code_simp
  from fixture_returned [OF t, of 2]
  have r: "mockDataMap ''fire-2'' = Some (fakeApiCall ''Fire in warehouse'' 2)
      \<and> length (fakeApiCall ''Fire in warehouse'' 2) = 7
      \<and> length (roots (fakeApiCall ''Fire in warehouse'' 2)) = 1
      \<and> parents_resolve_to_other (fakeApiCall ''Fire in warehouse'' 2)"
    by (simp add: number_to_string_small)
  then have "fakeApiCall ''Fire in warehouse'' 2 = fire_2"
    by (simp add: mockDataMap_def)
  with r t show ?thesis by simp
qed

subsection \<open>C4: every list the provider returns is a tree description\<close>

text \<open>
  C4: for every incident and every integer level the list the provider returns, fixture or
  synthesized, has pairwise distinct keys, exactly one node without a parent, and every
  parent value is the key of some node of the list.
\<close>

theorem provider_tree_invariants:
  "unique_keys (fakeApiCall inc lvl)
   \<and> length (roots (fakeApiCall inc lvl)) = 1
   \<and> parents_resolve (fakeApiCall inc lvl)"
  using fakeApiCall_cases [of inc lvl]
proof
  assume "fakeApiCall inc lvl \<in> {fire_1, fire_2, fire_3, slip_1, slip_2, slip_3}"
  from fixture_shape(1,2,3) [OF this] show ?thesis by simp
next
  assume "fakeApiCall inc lvl = generateGenericData inc lvl"
  with generic_shape [of inc lvl] show ?thesis by simp
qed

text \<open>C4 at a fixture ("Wet floor slip", level 3) and at a synthesized list ("Gas leak", level -4).\<close>

theorem provider_tree_invariants_witness:
  "unique_keys (fakeApiCall ''Wet floor slip'' 3)
   \<and> length (roots (fakeApiCall ''Wet floor slip'' 3)) = 1
   \<and> parents_resolve (fakeApiCall ''Wet floor slip'' 3)
   \<and> unique_keys (fakeApiCall ''Gas leak'' (- 4))"
  using provider_tree_invariants [of "''Wet floor slip''" 3]
    provider_tree_invariants [of "''Gas leak''" "- 4"] by simp

subsection \<open>C5: levels outside 1, 2, 3\<close>

text \<open>
  C5: the synthesizer's output at a level of 0 or less is its output at level 1, and at a
  level of 4 or more its output at level 3; for an incident classified as fire or slip at a
  level other than 1, 2 and 3 the lookup finds no fixture and the provider returns the
  synthesizer's output.
\<close>

theorem out_of_range_levels:
  "(lvl \<le> 0 \<longrightarrow> generateGenericData inc lvl = generateGenericData inc 1)
   \<and> (4 \<le> lvl \<longrightarrow> generateGenericData inc lvl = generateGenericData inc 3)
   \<and> ((incidentType inc = ''fire'' \<or> incidentType inc = ''slip'') \<and> lvl \<notin> {1, 2, 3}
        \<longrightarrow> mockDataMap (lookup_key inc lvl) = None
          \<and> fakeApiCall inc lvl = generateGenericData inc lvl)"
proof -
  have a: "lvl \<le> 0 \<longrightarrow> generateGenericData inc lvl = generateGenericData inc 1"
    by (simp add: generic_low)
  have b: "4 \<le> lvl \<longrightarrow> generateGenericData inc lvl = generateGenericData inc 3"
    by (simp add: generic_high)
  have c: "(incidentType inc = ''fire'' \<or> incidentType inc = ''slip'') \<and> lvl \<notin> {1, 2, 3}
        \<longrightarrow> mockDataMap (lookup_key inc lvl) = None
          \<and> fakeApiCall inc lvl = generateGenericData inc lvl"
    using mockDataMap_fire [of lvl] mockDataMap_slip [of lvl]
    by (auto simp: fakeApiCall_fire fakeApiCall_slip lookup_key_def)
  from a b c show ?thesis by blast
qed

text \<open>C5 at levels 0 and 7 of "Gas leak" and at "Fire drill", level 5.\<close>

theorem out_of_range_levels_witness:
  "generateGenericData ''Gas leak'' 0 = generateGenericData ''Gas leak'' 1
   \<and> generateGenericData ''Gas leak'' 7 = generateGenericData ''Gas leak'' 3
   \<and> incidentType ''Fire drill'' = ''fire''
   \<and> fakeApiCall ''Fire drill'' 5 = generateGenericData ''Fire drill'' 5"
proof -
  have t: "incidentType ''Fire drill'' = ''fire''" by code_simp
  show ?thesis
    using out_of_range_levels [of 0 "''Gas leak''"] out_of_range_levels [of 7 "''Gas leak''"]
      out_of_range_levels [of 5 "''Fire drill''"] t
    by simp
qed

subsection \<open>C6: classification and lookup key\<close>

text \<open>
  C6: the category is "fire" if the lower-cased incident contains "fire" as a substring,
  else "slip" if it contains "slip", else "generic"; the lookup key is the category, a
  hyphen and the level; the provider returns the fixture under that key when there is one
  and the synthesizer's output otherwise.
\<close>

theorem classification:
  "incidentType inc =
     (if contains_substring (toLowerCase inc) ''fire'' then ''fire''
      else if contains_substring (toLowerCase inc) ''slip'' then ''slip''
      else ''generic'')
   \<and> lookup_key inc lvl = incidentType inc @ ''-'' @ number_to_string lvl
   \<and> fakeApiCall inc lvl =
       (case mockDataMap (incidentType inc @ ''-'' @ number_to_string lvl) of
          Some fixture \<Rightarrow> fixture
        | None \<Rightarrow> generateGenericData inc lvl)"
  by (simp add: incidentType_def includes_str_iff lookup_key_def fakeApiCall_def)

text \<open>C6 at "A FIRE alarm", level 2: upper case is matched.\<close>

theorem classification_witness:
  "contains_substring (toLowerCase ''A FIRE alarm'') ''fire''
   \<and> incidentType ''A FIRE alarm'' = ''fire''
   \<and> lookup_key ''A FIRE alarm'' 2 = ''fire-2''"
proof -
  have t: "includes_str (toLowerCase ''A FIRE alarm'') ''fire''" by code_simp
  then have c: "contains_substring (toLowerCase ''A FIRE alarm'') ''fire''"
    by (simp add: includes_str_iff)
  with classification [of "''A FIRE alarm''" 2] show ?thesis
    by (simp add: number_to_string_small)
qed

subsection \<open>C7: a submission that fails validation\<close>

text \<open>
  C7: when the incident text is empty after trimming, or the level does not parse as a
  number, \<^verbatim>\<open>generateDiagram\<close> raises the alert and returns: no provider call is made
  and the loading flag, the diagram model, \<^verbatim>\<open>diagramInitialized\<close>, the visibility of
  the chart and of the spinner and the state of the export button stay as they were. The
  first part is the guard of \<^verbatim>\<open>generateDiagram\<close> on any state; the second is the
  whole \<^verbatim>\<open>submit\<close> listener, which stores the two inputs first.
\<close>

theorem invalid_submit_rejected:
  "(incident s = [] \<or> level s = None \<or> level s = Some NaN \<longrightarrow>
      generateDiagram_start s =
        s\<lparr>trace := trace s @ [Alert ''Please fill in both Incident and Level'']\<rparr>)
   \<and> (trim incidentInput = [] \<or> parseInt levelInput = NaN \<longrightarrow>
        onSubmit incidentInput levelInput s =
          s\<lparr>incident := trim incidentInput, level := Some (parseInt levelInput),
            trace := trace s @ [Alert ''Please fill in both Incident and Level'']\<rparr>
        \<and> trace (onSubmit incidentInput levelInput s) =
            trace s @ [Alert ''Please fill in both Incident and Level'']
        \<and> pending (onSubmit incidentInput levelInput s) = pending s
        \<and> isLoading (onSubmit incidentInput levelInput s) = isLoading s
        \<and> diagramModel (onSubmit incidentInput levelInput s) = diagramModel s
        \<and> diagramInitialized (onSubmit incidentInput levelInput s) = diagramInitialized s
        \<and> chartDisplay (onSubmit incidentInput levelInput s) = chartDisplay s
        \<and> exportDisabled (onSubmit incidentInput levelInput s) = exportDisabled s
        \<and> spinnerDisplay (onSubmit incidentInput levelInput s) = spinnerDisplay s)"
  by (auto simp: generateDiagram_start_def onSubmit_def)

text \<open>C7 at a blank incident with level "2", and at incident "Fire" with level "two".\<close>

theorem invalid_submit_rejected_witness:
  "incident (afterViewInit '''' True) = []
   \<and> generateDiagram_start (afterViewInit '''' True) =
       (afterViewInit '''' True)\<lparr>trace := [Alert ''Please fill in both Incident and Level'']\<rparr>
   \<and> trim ''   '' = [] \<and> parseInt ''two'' = NaN
   \<and> onSubmit ''   '' ''2'' (afterViewInit '''' True) =
       (afterViewInit '''' True)
         \<lparr>incident := [], level := Some (Num 2),
          trace := [Alert ''Please fill in both Incident and Level'']\<rparr>
   \<and> trace (onSubmit ''Fire'' ''two'' (afterViewInit '''' True)) =
       [Alert ''Please fill in both Incident and Level'']
   \<and> pending (onSubmit ''Fire'' ''two'' (afterViewInit '''' True)) = []"
proof -
  have a: "trim ''   '' = []" by code_simp
  have b: "parseInt ''two'' = NaN" by code_simp
  have c: "parseInt ''2'' = Num 2" by code_simp
  show ?thesis
    using invalid_submit_rejected [of "afterViewInit '''' True" "''   ''" "''2''"]
      invalid_submit_rejected [of "afterViewInit '''' True" "''Fire''" "''two''"] a b c
    by (simp add: afterViewInit_def)
qed

subsection \<open>C8: export before any successful generation\<close>

text \<open>
  C8: with \<^verbatim>\<open>diagramInitialized\<close> false, \<^verbatim>\<open>printDiagram\<close> raises its alert and does
  nothing else: no SVG is made, no object URL is created, no window is opened. And
  \<^verbatim>\<open>diagramInitialized\<close> is false after any run from the initial state in which no
  generation has run to its end.
\<close>

theorem print_rejected_before_generation:
  "(\<not> diagramInitialized s \<longrightarrow>
      printDiagram svgOk windowOk s =
        s\<lparr>trace := trace s @ [Alert ''Please generate a diagram first'']\<rparr>
      \<and> MakeSvg \<notin> set (drop (length (trace s)) (trace (printDiagram svgOk windowOk s)))
      \<and> CreateObjectURL \<notin> set (drop (length (trace s)) (trace (printDiagram svgOk windowOk s)))
      \<and> WindowOpen \<notin> set (drop (length (trace s)) (trace (printDiagram svgOk windowOk s))))
   \<and> (Settle True \<notin> set evs \<longrightarrow>
        \<not> diagramInitialized (run evs (afterViewInit chart0 disabled0)))"
proof -
  have a: "\<not> diagramInitialized s \<longrightarrow>
      printDiagram svgOk windowOk s =
        s\<lparr>trace := trace s @ [Alert ''Please generate a diagram first'']\<rparr>
      \<and> MakeSvg \<notin> set (drop (length (trace s)) (trace (printDiagram svgOk windowOk s)))
      \<and> CreateObjectURL \<notin> set (drop (length (trace s)) (trace (printDiagram svgOk windowOk s)))
      \<and> WindowOpen \<notin> set (drop (length (trace s)) (trace (printDiagram svgOk windowOk s)))"
    by (simp add: printDiagram_def)
  have "\<not> diagramInitialized (afterViewInit chart0 disabled0)"
    by (simp add: afterViewInit_def)
  then have b: "Settle True \<notin> set evs \<longrightarrow>
        \<not> diagramInitialized (run evs (afterViewInit chart0 disabled0))"
    by (simp add: run_keeps_uninitialized)
  from a b show ?thesis by blast
qed

text \<open>C8 after one failed generation from the initial state.\<close>

theorem print_rejected_before_generation_witness:
  "Settle True \<notin> set [Submit ''Fire'' ''1'', Settle False]
   \<and> \<not> diagramInitialized (run [Submit ''Fire'' ''1'', Settle False] (afterViewInit '''' True))
   \<and> trace (printDiagram True True
              (run [Submit ''Fire'' ''1'', Settle False] (afterViewInit '''' True))) =
       trace (run [Submit ''Fire'' ''1'', Settle False] (afterViewInit '''' True))
         @ [Alert ''Please generate a diagram first'']"
proof -
  have h: "Settle True \<notin> set [Submit ''Fire'' ''1'', Settle False]" by simp
  from print_rejected_before_generation
    [of "run [Submit ''Fire'' ''1'', Settle False] (afterViewInit '''' True)" True True
        "[Submit ''Fire'' ''1'', Settle False]" "''''" True] h
  show ?thesis by simp
qed

subsection \<open>C9: "fire" is tested first\<close>

text \<open>
  C9: an incident whose lower-cased text contains both "fire" and "slip" is classified as
  fire, its lookup key is none of the slip keys, and the provider returns none of the slip
  fixtures for it, at any level.
\<close>

theorem fire_precedes_slip:
  assumes "contains_substring (toLowerCase inc) ''fire''"
    and "contains_substring (toLowerCase inc) ''slip''"
  shows "incidentType inc = ''fire''
       \<and> lookup_key inc lvl \<notin> {''slip-1'', ''slip-2'', ''slip-3''}
       \<and> fakeApiCall inc lvl \<notin> {slip_1, slip_2, slip_3}"
proof -
  have t: "incidentType inc = ''fire''"
    using assms(1) by (simp add: incidentType_def includes_str_iff)
  have k: "lookup_key inc lvl \<notin> {''slip-1'', ''slip-2'', ''slip-3''}"
    using t by (simp add: lookup_key_def)
  have len: "length (generateGenericData inc lvl) \<in> {5, 9, 13}"
    by (cases lvl rule: level_cases) (simp_all add: generic_low generic_two generic_high)
  have "generateGenericData inc lvl \<notin> {slip_1, slip_2, slip_3}"
  proof
    assume "generateGenericData inc lvl \<in> {slip_1, slip_2, slip_3}"
    then have "length (generateGenericData inc lvl) \<in> {3, 7, 11}"
      by (auto simp: fixture_defs)
    with len show False by auto
  qed
  moreover have "fire_1 \<notin> {slip_1, slip_2, slip_3}" "fire_2 \<notin> {slip_1, slip_2, slip_3}"
    "fire_3 \<notin> {slip_1, slip_2, slip_3}"
    by (simp_all add: fixture_defs)
  ultimately have "fakeApiCall inc lvl \<notin> {slip_1, slip_2, slip_3}"
    using fakeApiCall_fire [OF t, of lvl] by (simp split: if_splits)
  with t k show ?thesis by simp
qed

text \<open>C9 at "Slipped near the Fire exit", level 1.\<close>

theorem fire_precedes_slip_witness:
  "contains_substring (toLowerCase ''Slipped near the Fire exit'') ''fire''
   \<and> contains_substring (toLowerCase ''Slipped near the Fire exit'') ''slip''
   \<and> incidentType ''Slipped near the Fire exit'' = ''fire''
   \<and> fakeApiCall ''Slipped near the Fire exit'' 1 = fire_1"
proof -
  have "includes_str (toLowerCase ''Slipped near the Fire exit'') ''fire''" by code_simp
  then have f: "contains_substring (toLowerCase ''Slipped near the Fire exit'') ''fire''"
    by (simp add: includes_str_iff)
  have "includes_str (toLowerCase ''Slipped near the Fire exit'') ''slip''" by code_simp
  then have s: "contains_substring (toLowerCase ''Slipped near the Fire exit'') ''slip''"
    by (simp add: includes_str_iff)
  from fire_precedes_slip [OF f s, of 1] f s show ?thesis
    by (simp add: fakeApiCall_fire)
qed

subsection \<open>C10: \<^verbatim>\<open>diagramInitialized\<close> is never reset\<close>




end
